theory Spec2Isabelle
  imports Main "HOL-Library.Word"
begin

unbundle bit_operations_syntax

section \<open>The request value of the I/O reactor (io\_request.hh)\<close>

text \<open>
  The class \<^verbatim>\<open>seastar::internal::io_request\<close> is a tag, a descriptor and three
  anonymous unions. The members of a union share their storage, so each union is modelled
  as the bytes it occupies, and a member is read and written through its byte
  representation. The sizes and the byte order are those of the LP64 little-endian Linux
  targets (x86-64, AArch64): \<^verbatim>\<open>int\<close> and \<^verbatim>\<open>socklen_t\<close> are 4 bytes,
  \<^verbatim>\<open>uint64_t\<close>, \<^verbatim>\<open>size_t\<close> and every pointer are 8 bytes, and every member
  of a union starts at offset 0 of it.
  Reading a member other than the one written last reads the shared bytes, which is what
  GCC and Clang do for an access through the union.
\<close>

subsection \<open>Scalar types\<close>

type_synonym byte = "8 word"
type_synonym c_int = "32 word"       \<comment> \<open>\<^verbatim>\<open>int\<close>, read as two's complement by \<open>sint\<close>\<close>
type_synonym uint64_t = "64 word"
type_synonym size_t = "64 word"
type_synonym socklen_t = "32 word"
type_synonym pointer = "64 word"     \<comment> \<open>an address; the pointee type is static only\<close>

subsection \<open>Storage of a union\<close>

text \<open>
  A byte of storage is \<open>None\<close> as long as nothing has been written to it: a member
  that no constructor initialises has an indeterminate value. Reading a member needs all
  of its bytes to hold a value.
\<close>

type_synonym storage = "byte option list"

definition uninitialized :: "nat \<Rightarrow> storage" where
  "uninitialized n = replicate n None"

fun le_bytes :: "nat \<Rightarrow> 'a::len word \<Rightarrow> byte list" where
  "le_bytes 0 w = []"
| "le_bytes (Suc n) w = ucast w # le_bytes n (drop_bit 8 w)"

fun le_word :: "byte list \<Rightarrow> 'a::len word" where
  "le_word [] = 0"
| "le_word (b # bs) = ucast b OR push_bit 8 (le_word bs)"

definition store :: "nat \<Rightarrow> 'a::len word \<Rightarrow> storage \<Rightarrow> storage" where
  \<comment> \<open>assignment to a member of \<open>n\<close> bytes at offset 0; the other bytes are kept\<close>
  "store n v s = map Some (le_bytes n v) @ drop n s"

definition load :: "nat \<Rightarrow> storage \<Rightarrow> 'a::len word option" where
  \<comment> \<open>the value of a member of \<open>n\<close> bytes at offset 0\<close>
  "load n s = (if length s < n then None else map_option le_word (those (take n s)))"

subsection \<open>The operation tag\<close>

datatype operation =
  read | readv | "write" | writev | fdatasync | recv | recvmsg | send | sendmsg
  | accept | connect | poll_add | poll_remove | cancel

subsection \<open>The request\<close>

text \<open>
  \<^verbatim>\<open>_attr\<close> is \<^verbatim>\<open>union { uint64_t pos; int flags; int events; }\<close>,
  \<^verbatim>\<open>_ptr\<close> is \<^verbatim>\<open>union { char* addr; iovec* iovec; msghdr* msghdr; sockaddr* sockaddr; }\<close>,
  \<^verbatim>\<open>_size\<close> is \<^verbatim>\<open>union { size_t len; socklen_t* socklen_ptr; socklen_t socklen; }\<close>:
  8 bytes each.
\<close>

record io_request =
  m_op :: operation
  m_fd :: c_int
  m_attr :: storage
  m_ptr :: storage
  m_size :: storage

text \<open>
  The constructors name \<^verbatim>\<open>_op\<close> and \<^verbatim>\<open>_fd\<close> in their initialiser lists and
  nothing else: the three unions are default-initialised, that is left indeterminate,
  before the constructor body runs.
\<close>

definition init_op_fd :: "operation \<Rightarrow> c_int \<Rightarrow> io_request" where
  "init_op_fd opn f =
     \<lparr> m_op = opn, m_fd = f, m_attr = uninitialized 8, m_ptr = uninitialized 8,
       m_size = uninitialized 8 \<rparr>"

text \<open>The eight private constructors, in the order of the source.\<close>

definition io_request_msg :: "operation \<Rightarrow> c_int \<Rightarrow> c_int \<Rightarrow> pointer \<Rightarrow> io_request" where
  \<comment> \<open>\<^verbatim>\<open>io_request(operation op, int fd, int flags, ::msghdr* msg)\<close>\<close>
  "io_request_msg opn f flgs msg =
     (let r = init_op_fd opn f;
          r = r\<lparr>m_attr := store 4 flgs (m_attr r)\<rparr>;
          r = r\<lparr>m_ptr := store 8 msg (m_ptr r)\<rparr>
      in r)"

definition io_request_sockaddr :: "operation \<Rightarrow> c_int \<Rightarrow> pointer \<Rightarrow> socklen_t \<Rightarrow> io_request" where
  \<comment> \<open>\<^verbatim>\<open>io_request(operation op, int fd, sockaddr* sa, socklen_t sl)\<close>\<close>
  "io_request_sockaddr opn f sa sl =
     (let r = init_op_fd opn f;
          r = r\<lparr>m_ptr := store 8 sa (m_ptr r)\<rparr>;
          r = r\<lparr>m_size := store 4 sl (m_size r)\<rparr>
      in r)"

definition io_request_sockaddr_out ::
  "operation \<Rightarrow> c_int \<Rightarrow> c_int \<Rightarrow> pointer \<Rightarrow> pointer \<Rightarrow> io_request" where
  \<comment> \<open>\<^verbatim>\<open>io_request(operation op, int fd, int flags, sockaddr* sa, socklen_t* sl)\<close>\<close>
  "io_request_sockaddr_out opn f flgs sa sl =
     (let r = init_op_fd opn f;
          r = r\<lparr>m_attr := store 4 flgs (m_attr r)\<rparr>;
          r = r\<lparr>m_ptr := store 8 sa (m_ptr r)\<rparr>;
          r = r\<lparr>m_size := store 8 sl (m_size r)\<rparr>
      in r)"

definition io_request_buf ::
  "operation \<Rightarrow> c_int \<Rightarrow> uint64_t \<Rightarrow> pointer \<Rightarrow> size_t \<Rightarrow> io_request" where
  \<comment> \<open>\<^verbatim>\<open>io_request(operation op, int fd, uint64_t pos, char* ptr, size_t size)\<close>\<close>
  "io_request_buf opn f p ptr sz =
     (let r = init_op_fd opn f;
          r = r\<lparr>m_attr := store 8 p (m_attr r)\<rparr>;
          r = r\<lparr>m_ptr := store 8 ptr (m_ptr r)\<rparr>;
          r = r\<lparr>m_size := store 8 sz (m_size r)\<rparr>
      in r)"

definition io_request_iovec ::
  "operation \<Rightarrow> c_int \<Rightarrow> uint64_t \<Rightarrow> pointer \<Rightarrow> size_t \<Rightarrow> io_request" where
  \<comment> \<open>\<^verbatim>\<open>io_request(operation op, int fd, uint64_t pos, iovec* ptr, size_t size)\<close>\<close>
  "io_request_iovec opn f p ptr sz =
     (let r = init_op_fd opn f;
          r = r\<lparr>m_attr := store 8 p (m_attr r)\<rparr>;
          r = r\<lparr>m_ptr := store 8 ptr (m_ptr r)\<rparr>;
          r = r\<lparr>m_size := store 8 sz (m_size r)\<rparr>
      in r)"

definition io_request_fd :: "operation \<Rightarrow> c_int \<Rightarrow> io_request" where
  \<comment> \<open>\<^verbatim>\<open>io_request(operation op, int fd)\<close>, with an empty body\<close>
  "io_request_fd opn f = init_op_fd opn f"

definition io_request_events :: "operation \<Rightarrow> c_int \<Rightarrow> c_int \<Rightarrow> io_request" where
  \<comment> \<open>\<^verbatim>\<open>io_request(operation op, int fd, int events)\<close>\<close>
  "io_request_events opn f evs =
     (let r = init_op_fd opn f;
          r = r\<lparr>m_attr := store 4 evs (m_attr r)\<rparr>
      in r)"

definition io_request_token :: "operation \<Rightarrow> c_int \<Rightarrow> pointer \<Rightarrow> io_request" where
  \<comment> \<open>\<^verbatim>\<open>io_request(operation op, int fd, char *ptr)\<close>\<close>
  "io_request_token opn f ptr =
     (let r = init_op_fd opn f;
          r = r\<lparr>m_ptr := store 8 ptr (m_ptr r)\<rparr>
      in r)"

subsection \<open>Classification predicates\<close>

fun is_read :: "io_request \<Rightarrow> bool" where
  "is_read r =
     (case m_op r of
        read \<Rightarrow> True
      | readv \<Rightarrow> True
      | recvmsg \<Rightarrow> True
      | recv \<Rightarrow> True
      | _ \<Rightarrow> False)"

fun is_write :: "io_request \<Rightarrow> bool" where
  "is_write r =
     (case m_op r of
        write \<Rightarrow> True
      | writev \<Rightarrow> True
      | send \<Rightarrow> True
      | sendmsg \<Rightarrow> True
      | _ \<Rightarrow> False)"

subsection \<open>Accessors\<close>

definition opcode :: "io_request \<Rightarrow> operation" where
  "opcode r = m_op r"

definition fd :: "io_request \<Rightarrow> c_int" where
  "fd r = m_fd r"

definition pos :: "io_request \<Rightarrow> uint64_t option" where
  "pos r = load 8 (m_attr r)"

definition flags :: "io_request \<Rightarrow> c_int option" where
  "flags r = load 4 (m_attr r)"

definition events :: "io_request \<Rightarrow> c_int option" where
  "events r = load 4 (m_attr r)"

definition address :: "io_request \<Rightarrow> pointer option" where
  "address r = load 8 (m_ptr r)"

definition iov :: "io_request \<Rightarrow> pointer option" where
  "iov r = load 8 (m_ptr r)"

definition posix_sockaddr :: "io_request \<Rightarrow> pointer option" where
  "posix_sockaddr r = load 8 (m_ptr r)"

definition msghdr :: "io_request \<Rightarrow> pointer option" where
  "msghdr r = load 8 (m_ptr r)"

definition size_req :: "io_request \<Rightarrow> size_t option" where
  \<comment> \<open>\<^verbatim>\<open>size()\<close>\<close>
  "size_req r = load 8 (m_size r)"

definition iov_len :: "io_request \<Rightarrow> size_t option" where
  "iov_len r = load 8 (m_size r)"

definition socklen :: "io_request \<Rightarrow> socklen_t option" where
  "socklen r = load 4 (m_size r)"

definition socklen_ptr :: "io_request \<Rightarrow> pointer option" where
  "socklen_ptr r = load 8 (m_size r)"

subsection \<open>Factories\<close>

text \<open>
  A \<^verbatim>\<open>std::vector<iovec>&\<close> argument is used through \<^verbatim>\<open>data()\<close> and
  \<^verbatim>\<open>size()\<close> only.
\<close>

record iovec_vector =
  vec_data :: pointer
  vec_size :: size_t

definition make_read :: "c_int \<Rightarrow> uint64_t \<Rightarrow> pointer \<Rightarrow> size_t \<Rightarrow> io_request" where
  "make_read f p addr sz = io_request_buf read f p addr sz"

definition make_readv :: "c_int \<Rightarrow> uint64_t \<Rightarrow> iovec_vector \<Rightarrow> io_request" where
  "make_readv f p v = io_request_iovec readv f p (vec_data v) (vec_size v)"

text \<open>
  \<^verbatim>\<open>make_recv\<close> and \<^verbatim>\<open>make_send\<close> pass \<^verbatim>\<open>(op, int, int, char*, size_t)\<close>.
  The only constructor with a \<^verbatim>\<open>char*\<close> in fourth place and five parameters is the one
  taking \<^verbatim>\<open>uint64_t pos\<close>, so overload resolution selects it and the \<^verbatim>\<open>int\<close>
  flags are converted to \<^verbatim>\<open>uint64_t\<close> (sign extension, \<open>scast\<close>).
\<close>

definition make_recv :: "c_int \<Rightarrow> pointer \<Rightarrow> size_t \<Rightarrow> c_int \<Rightarrow> io_request" where
  "make_recv f addr sz flgs = io_request_buf recv f (scast flgs) addr sz"

definition make_recvmsg :: "c_int \<Rightarrow> pointer \<Rightarrow> c_int \<Rightarrow> io_request" where
  "make_recvmsg f msg flgs = io_request_msg recvmsg f flgs msg"

definition make_send :: "c_int \<Rightarrow> pointer \<Rightarrow> size_t \<Rightarrow> c_int \<Rightarrow> io_request" where
  "make_send f addr sz flgs = io_request_buf send f (scast flgs) addr sz"

definition make_sendmsg :: "c_int \<Rightarrow> pointer \<Rightarrow> c_int \<Rightarrow> io_request" where
  "make_sendmsg f msg flgs = io_request_msg sendmsg f flgs msg"

definition make_write :: "c_int \<Rightarrow> uint64_t \<Rightarrow> pointer \<Rightarrow> size_t \<Rightarrow> io_request" where
  "make_write f p addr sz = io_request_buf write f p addr sz"

definition make_writev :: "c_int \<Rightarrow> uint64_t \<Rightarrow> iovec_vector \<Rightarrow> io_request" where
  "make_writev f p v = io_request_iovec writev f p (vec_data v) (vec_size v)"

definition make_fdatasync :: "c_int \<Rightarrow> io_request" where
  "make_fdatasync f = io_request_fd fdatasync f"

definition make_accept :: "c_int \<Rightarrow> pointer \<Rightarrow> pointer \<Rightarrow> c_int \<Rightarrow> io_request" where
  "make_accept f addr addrlen flgs = io_request_sockaddr_out accept f flgs addr addrlen"

definition make_connect :: "c_int \<Rightarrow> pointer \<Rightarrow> socklen_t \<Rightarrow> io_request" where
  "make_connect f addr addrlen = io_request_sockaddr connect f addr addrlen"

definition make_poll_add :: "c_int \<Rightarrow> c_int \<Rightarrow> io_request" where
  "make_poll_add f evs = io_request_events poll_add f evs"

definition make_poll_remove :: "c_int \<Rightarrow> pointer \<Rightarrow> io_request" where
  "make_poll_remove f addr = io_request_token poll_remove f addr"

definition make_cancel :: "c_int \<Rightarrow> pointer \<Rightarrow> io_request" where
  "make_cancel f addr = io_request_token cancel f addr"

section \<open>Storage lemmas\<close>

lemma length_le_bytes: "length (le_bytes n w) = n"
  by (induction n arbitrary: w) simp_all

lemma those_map_Some: "those (map Some xs) = Some xs"
  by (induction xs) simp_all

lemma take_le_bytes: "k \<le> n \<Longrightarrow> take k (le_bytes n w) = le_bytes k w"
proof (induction k arbitrary: n w)
  case 0
  show ?case by simp
next
  case (Suc k)
  then obtain m where "n = Suc m" and "k \<le> m"
    by (cases n) auto
  with Suc.IH show ?case by simp
qed

text \<open>Decoding the first \<open>n\<close> little-endian bytes of a word gives its low \<open>8 n\<close> bits.\<close>

lemma le_word_le_bytes:
  "(le_word (le_bytes n w) :: 'b::len word) = ucast (take_bit (8 * n) (w :: 'a::len word))"
proof (induction n arbitrary: w)
  case 0
  show ?case by simp
next
  case (Suc n)
  have "(ucast (ucast w :: byte) OR push_bit 8 (ucast (take_bit (8 * n) (drop_bit 8 w))) :: 'b word)
          = ucast (take_bit (8 * Suc n) w)"
    by (rule bit_word_eqI) (auto simp add: bit_simps)
  then show ?case by (simp add: Suc)
qed

lemma load_store:
  "k \<le> n \<Longrightarrow>
   (load k (store n (v :: 'a::len word) s) :: 'b::len word option)
     = Some (ucast (take_bit (8 * k) v))"
  by (simp add: load_def store_def length_le_bytes take_map take_le_bytes those_map_Some
      le_word_le_bytes)

lemma load8_store8 [simp]: "load 8 (store 8 (v :: 64 word) s) = Some v"
  using load_store [of 8 8 v s, where 'b = 64] by (simp add: take_bit_word_eq_self)

lemma load4_store4 [simp]: "load 4 (store 4 (v :: 32 word) s) = Some v"
  using load_store [of 4 4 v s, where 'b = 32] by (simp add: take_bit_word_eq_self)

lemma load4_store8: "(load 4 (store 8 (v :: 64 word) s) :: 32 word option) = Some (ucast v)"
proof -
  have "(ucast (take_bit 32 v) :: 32 word) = ucast v"
    by (rule bit_word_eqI) (auto simp add: bit_simps)
  with load_store [of 4 8 v s, where 'b = 32] show ?thesis by simp
qed

lemma ucast_scast_int: "(ucast (scast (x :: 32 word) :: 64 word) :: 32 word) = x"
  by (rule bit_word_eqI) (auto simp add: bit_simps)

text \<open>The conversion of an \<^verbatim>\<open>int\<close> to \<^verbatim>\<open>uint64_t\<close> is its value modulo \<open>2 ^ 64\<close>.\<close>

lemma uint_scast_int: "uint (scast (x :: 32 word) :: 64 word) = sint x mod 2 ^ 64"
proof -
  have "uint (scast x :: 64 word) = sint x mod 2 ^ LENGTH(64)"
    by (simp only: scast_eq uint_word_of_int)
  moreover have "LENGTH(64) = 64"
    by simp
  ultimately show ?thesis
    by (simp only:)
qed

lemma load4_store8_scast [simp]:
  "load 4 (store 8 (scast (x :: 32 word) :: 64 word) s) = Some x"
  by (simp add: load4_store8 ucast_scast_int)

lemma load_uninitialized [simp]: "0 < k \<Longrightarrow> load k (uninitialized n) = None"
  by (cases k; cases n; simp add: load_def uninitialized_def)

lemma those_Some_append_None: "those (map Some xs @ None # ys) = None"
  by (induction xs) simp_all

text \<open>A 4-byte member written into fresh storage leaves the upper 4 bytes indeterminate.\<close>

lemma load8_store4_uninitialized [simp]:
  "load 8 (store 4 (v :: 32 word) (uninitialized 8)) = None"
proof -
  have "take 8 (store 4 v (uninitialized 8))
          = map Some (le_bytes 4 v) @ None # replicate 3 None"
    by (simp add: store_def uninitialized_def length_le_bytes numeral_eq_Suc)
  then show ?thesis
    by (simp add: load_def those_Some_append_None)
qed

lemmas ctor_defs =
  init_op_fd_def io_request_msg_def io_request_sockaddr_def io_request_sockaddr_out_def
  io_request_buf_def io_request_iovec_def io_request_fd_def io_request_events_def
  io_request_token_def Let_def

lemmas accessor_defs =
  opcode_def fd_def pos_def flags_def events_def address_def iov_def posix_sockaddr_def
  msghdr_def size_req_def iov_len_def socklen_def socklen_ptr_def

section \<open>What each factory stores\<close>

lemma make_read_fields:
  "opcode (make_read f p a s) = read" "fd (make_read f p a s) = f"
  "pos (make_read f p a s) = Some p" "address (make_read f p a s) = Some a"
  "size_req (make_read f p a s) = Some s"
  by (simp_all add: make_read_def ctor_defs accessor_defs)

lemma make_write_fields:
  "opcode (make_write f p a s) = write" "fd (make_write f p a s) = f"
  "pos (make_write f p a s) = Some p" "address (make_write f p a s) = Some a"
  "size_req (make_write f p a s) = Some s"
  by (simp_all add: make_write_def ctor_defs accessor_defs)

lemma make_readv_fields:
  "opcode (make_readv f p v) = readv" "fd (make_readv f p v) = f"
  "pos (make_readv f p v) = Some p" "iov (make_readv f p v) = Some (vec_data v)"
  "iov_len (make_readv f p v) = Some (vec_size v)"
  by (simp_all add: make_readv_def ctor_defs accessor_defs)

lemma make_writev_fields:
  "opcode (make_writev f p v) = writev" "fd (make_writev f p v) = f"
  "pos (make_writev f p v) = Some p" "iov (make_writev f p v) = Some (vec_data v)"
  "iov_len (make_writev f p v) = Some (vec_size v)"
  by (simp_all add: make_writev_def ctor_defs accessor_defs)

lemma make_recv_fields:
  "opcode (make_recv f a s fl) = recv" "fd (make_recv f a s fl) = f"
  "flags (make_recv f a s fl) = Some fl" "address (make_recv f a s fl) = Some a"
  "size_req (make_recv f a s fl) = Some s" "pos (make_recv f a s fl) = Some (scast fl)"
  by (simp_all add: make_recv_def ctor_defs accessor_defs)

lemma make_send_fields:
  "opcode (make_send f a s fl) = send" "fd (make_send f a s fl) = f"
  "flags (make_send f a s fl) = Some fl" "address (make_send f a s fl) = Some a"
  "size_req (make_send f a s fl) = Some s" "pos (make_send f a s fl) = Some (scast fl)"
  by (simp_all add: make_send_def ctor_defs accessor_defs)

lemma make_recvmsg_fields:
  "opcode (make_recvmsg f m fl) = recvmsg" "fd (make_recvmsg f m fl) = f"
  "flags (make_recvmsg f m fl) = Some fl" "msghdr (make_recvmsg f m fl) = Some m"
  by (simp_all add: make_recvmsg_def ctor_defs accessor_defs)

lemma make_sendmsg_fields:
  "opcode (make_sendmsg f m fl) = sendmsg" "fd (make_sendmsg f m fl) = f"
  "flags (make_sendmsg f m fl) = Some fl" "msghdr (make_sendmsg f m fl) = Some m"
  by (simp_all add: make_sendmsg_def ctor_defs accessor_defs)

lemma make_accept_fields:
  "opcode (make_accept f sa slp fl) = accept" "fd (make_accept f sa slp fl) = f"
  "flags (make_accept f sa slp fl) = Some fl"
  "posix_sockaddr (make_accept f sa slp fl) = Some sa"
  "socklen_ptr (make_accept f sa slp fl) = Some slp"
  by (simp_all add: make_accept_def ctor_defs accessor_defs)

lemma make_connect_fields:
  "opcode (make_connect f sa sl) = connect" "fd (make_connect f sa sl) = f"
  "posix_sockaddr (make_connect f sa sl) = Some sa"
  "socklen (make_connect f sa sl) = Some sl"
  "socklen_ptr (make_connect f sa sl) = None"
  by (simp_all add: make_connect_def ctor_defs accessor_defs)

lemma make_poll_add_fields:
  "opcode (make_poll_add f e) = poll_add" "fd (make_poll_add f e) = f"
  "events (make_poll_add f e) = Some e"
  by (simp_all add: make_poll_add_def ctor_defs accessor_defs)

lemma make_poll_remove_fields:
  "opcode (make_poll_remove f t) = poll_remove" "fd (make_poll_remove f t) = f"
  "address (make_poll_remove f t) = Some t"
  by (simp_all add: make_poll_remove_def ctor_defs accessor_defs)

lemma make_cancel_fields:
  "opcode (make_cancel f t) = cancel" "fd (make_cancel f t) = f"
  "address (make_cancel f t) = Some t"
  by (simp_all add: make_cancel_def ctor_defs accessor_defs)

lemma make_fdatasync_fields:
  "opcode (make_fdatasync f) = fdatasync" "fd (make_fdatasync f) = f"
  by (simp_all add: make_fdatasync_def ctor_defs accessor_defs)

section \<open>Properties of the request value\<close>

text \<open>
  C1. For every request, \<^verbatim>\<open>is_read()\<close> holds exactly when the operation tag is one of
  read, readv, recv, recvmsg, and \<^verbatim>\<open>is_write()\<close> holds exactly when it is one of
  write, writev, send, sendmsg.
\<close>

theorem is_read_is_write_iff:
  "(is_read r \<longleftrightarrow> opcode r \<in> {read, readv, recv, recvmsg}) \<and>
   (is_write r \<longleftrightarrow> opcode r \<in> {write, writev, send, sendmsg})"
  by (cases "m_op r") (simp_all add: opcode_def)

text \<open>
  C2. Every value handed to a factory comes back unchanged from the matching accessor:
  the position of the four file operations from \<^verbatim>\<open>pos()\<close>, the flags of recv, recvmsg,
  send, sendmsg and accept from \<^verbatim>\<open>flags()\<close>, the event mask of poll\_add from
  \<^verbatim>\<open>events()\<close>, the byte length or element count from \<^verbatim>\<open>size()\<close> or
  \<^verbatim>\<open>iov_len()\<close>, and every pointer from its pointer accessor.
\<close>

theorem factory_accessor_roundtrip:
  "pos (make_read f p a s) = Some p \<and> address (make_read f p a s) = Some a \<and>
     size_req (make_read f p a s) = Some s \<and>
   pos (make_readv f p v) = Some p \<and> iov (make_readv f p v) = Some (vec_data v) \<and>
     iov_len (make_readv f p v) = Some (vec_size v) \<and>
   pos (make_write f p a s) = Some p \<and> address (make_write f p a s) = Some a \<and>
     size_req (make_write f p a s) = Some s \<and>
   pos (make_writev f p v) = Some p \<and> iov (make_writev f p v) = Some (vec_data v) \<and>
     iov_len (make_writev f p v) = Some (vec_size v) \<and>
   flags (make_recv f a s fl) = Some fl \<and> address (make_recv f a s fl) = Some a \<and>
     size_req (make_recv f a s fl) = Some s \<and>
   flags (make_recvmsg f m fl) = Some fl \<and> msghdr (make_recvmsg f m fl) = Some m \<and>
   flags (make_send f a s fl) = Some fl \<and> address (make_send f a s fl) = Some a \<and>
     size_req (make_send f a s fl) = Some s \<and>
   flags (make_sendmsg f m fl) = Some fl \<and> msghdr (make_sendmsg f m fl) = Some m \<and>
   flags (make_accept f sa slp fl) = Some fl \<and>
     posix_sockaddr (make_accept f sa slp fl) = Some sa \<and>
     socklen_ptr (make_accept f sa slp fl) = Some slp \<and>
   posix_sockaddr (make_connect f sa sl) = Some sa \<and>
     socklen (make_connect f sa sl) = Some sl \<and>
   events (make_poll_add f e) = Some e \<and>
   address (make_poll_remove f t) = Some t \<and>
   address (make_cancel f t) = Some t"
  by (simp only: make_read_fields make_readv_fields make_write_fields make_writev_fields
      make_recv_fields make_recvmsg_fields make_send_fields make_sendmsg_fields
      make_accept_fields make_connect_fields make_poll_add_fields make_poll_remove_fields
      make_cancel_fields simp_thms)

text \<open>
  C3. \<^verbatim>\<open>make_accept\<close> keeps the address-length argument as the pointer it was given,
  returned by \<^verbatim>\<open>socklen_ptr()\<close>; \<^verbatim>\<open>make_connect\<close> keeps it as the value it was
  given, returned by \<^verbatim>\<open>socklen()\<close>, and stores no pointer: its 4 bytes do not fill the
  pointer member.
\<close>

theorem accept_pointer_connect_value:
  "socklen_ptr (make_accept f sa slp fl) = Some slp \<and>
   socklen (make_connect f sa sl) = Some sl \<and>
   socklen_ptr (make_connect f sa sl) = None"
  by (simp only: make_accept_fields make_connect_fields simp_thms)

text \<open>
  C4. \<^verbatim>\<open>make_poll_remove\<close> and \<^verbatim>\<open>make_cancel\<close> put the token into the storage that
  a buffer pointer occupies (the same bytes of \<^verbatim>\<open>_ptr\<close> that \<^verbatim>\<open>make_read\<close> fills
  with its buffer), and \<^verbatim>\<open>address()\<close> returns it.
\<close>

theorem token_in_buffer_slot:
  "m_ptr (make_poll_remove f t) = m_ptr (make_read f' p t s) \<and>
   address (make_poll_remove f t) = Some t \<and>
   m_ptr (make_cancel f t) = m_ptr (make_read f' p t s) \<and>
   address (make_cancel f t) = Some t"
  by (simp add: make_poll_remove_fields make_cancel_fields)
     (simp add: make_poll_remove_def make_cancel_def make_read_def ctor_defs)

text \<open>
  C5. No request is both read-class and write-class, and a request is neither exactly
  when its operation is one of fdatasync, accept, connect, poll\_add, poll\_remove, cancel.
\<close>

theorem read_write_exclusive:
  "\<not> (is_read r \<and> is_write r) \<and>
   ((\<not> is_read r \<and> \<not> is_write r) \<longleftrightarrow>
      opcode r \<in> {fdatasync, accept, connect, poll_add, poll_remove, cancel})"
  by (cases "m_op r") (simp_all add: opcode_def)

text \<open>
  C6. The request \<^verbatim>\<open>make_write(7, 4096, buf, 512)\<close> has opcode write, descriptor 7,
  position 4096, address \<open>buf\<close>, size 512, is write-class and is not read-class.
\<close>

theorem make_write_scenario:
  "opcode (make_write 7 4096 buf 512) = write \<and>
   fd (make_write 7 4096 buf 512) = 7 \<and>
   pos (make_write 7 4096 buf 512) = Some 4096 \<and>
   address (make_write 7 4096 buf 512) = Some buf \<and>
   size_req (make_write 7 4096 buf 512) = Some 512 \<and>
   is_write (make_write 7 4096 buf 512) = True \<and>
   is_read (make_write 7 4096 buf 512) = False"
  by (simp add: make_write_fields) (simp add: make_write_def ctor_defs)

text \<open>
  C7 as the specification states it: after \<^verbatim>\<open>make_fdatasync\<close>,
  \<^verbatim>\<open>make_connect\<close>, \<^verbatim>\<open>make_poll_remove\<close> or \<^verbatim>\<open>make_cancel\<close> the
  attribute field is zero. It is not: no constructor of these four assigns a member of
  \<^verbatim>\<open>_attr\<close>, so the field holds no value at all, and neither its bytes nor a read
  through \<^verbatim>\<open>pos()\<close> give zero.
\<close>

theorem attribute_zero_counterexample:
  "m_attr (make_fdatasync 3) \<noteq> store 8 (0 :: uint64_t) (uninitialized 8) \<and>
   pos (make_fdatasync 3) \<noteq> Some 0"
  by (simp add: make_fdatasync_def ctor_defs accessor_defs)
     (simp add: store_def uninitialized_def numeral_eq_Suc)

text \<open>
  C7, amended. For every request built by \<^verbatim>\<open>make_fdatasync\<close>,
  \<^verbatim>\<open>make_connect\<close>, \<^verbatim>\<open>make_poll_remove\<close> or \<^verbatim>\<open>make_cancel\<close> the
  attribute field is unused: the constructor writes none of its bytes, so it is left
  uninitialised (not zeroed) and \<^verbatim>\<open>pos()\<close>, \<^verbatim>\<open>flags()\<close> and
  \<^verbatim>\<open>events()\<close> have no determinate value on it.
\<close>

theorem attribute_unused_uninitialized:
  "m_attr (make_fdatasync f) = uninitialized 8 \<and>
     pos (make_fdatasync f) = None \<and> flags (make_fdatasync f) = None \<and>
     events (make_fdatasync f) = None \<and>
   m_attr (make_connect f sa sl) = uninitialized 8 \<and>
     pos (make_connect f sa sl) = None \<and> flags (make_connect f sa sl) = None \<and>
     events (make_connect f sa sl) = None \<and>
   m_attr (make_poll_remove f t) = uninitialized 8 \<and>
     pos (make_poll_remove f t) = None \<and> flags (make_poll_remove f t) = None \<and>
     events (make_poll_remove f t) = None \<and>
   m_attr (make_cancel f t) = uninitialized 8 \<and>
     pos (make_cancel f t) = None \<and> flags (make_cancel f t) = None \<and>
     events (make_cancel f t) = None"
  by (simp add: make_fdatasync_def make_connect_def make_poll_remove_def
      make_cancel_def ctor_defs accessor_defs)

text \<open>
  C8. \<^verbatim>\<open>make_recv\<close> and \<^verbatim>\<open>make_send\<close> store their flags through the 64-bit
  position member: the \<^verbatim>\<open>int\<close> is converted to \<^verbatim>\<open>uint64_t\<close> (its two's
  complement value modulo \<open>2 ^ 64\<close>), \<^verbatim>\<open>pos()\<close> returns that converted value, and
  \<^verbatim>\<open>flags()\<close> reads the original flags back from the same bytes.
\<close>

theorem recv_send_flags_through_pos:
  "m_attr (make_recv f a s fl) = store 8 (scast fl :: uint64_t) (uninitialized 8) \<and>
   pos (make_recv f a s fl) = Some (scast fl) \<and>
   map_option uint (pos (make_recv f a s fl)) = Some (sint fl mod 2 ^ 64) \<and>
   flags (make_recv f a s fl) = Some fl \<and>
   m_attr (make_send f a s fl) = store 8 (scast fl :: uint64_t) (uninitialized 8) \<and>
   pos (make_send f a s fl) = Some (scast fl) \<and>
   map_option uint (pos (make_send f a s fl)) = Some (sint fl mod 2 ^ 64) \<and>
   flags (make_send f a s fl) = Some fl"
proof -
  have attr: "m_attr (make_recv f a s fl) = store 8 (scast fl :: uint64_t) (uninitialized 8)"
    "m_attr (make_send f a s fl) = store 8 (scast fl :: uint64_t) (uninitialized 8)"
    by (simp_all add: make_recv_def make_send_def ctor_defs)
  show ?thesis
    by (simp only: attr make_recv_fields make_send_fields option.map uint_scast_int simp_thms)
qed

text \<open>
  C9. The four pointer accessors read one and the same storage: on every request
  \<^verbatim>\<open>address()\<close>, \<^verbatim>\<open>iov()\<close>, \<^verbatim>\<open>msghdr()\<close> and
  \<^verbatim>\<open>posix_sockaddr()\<close> return the same stored pointer, and after
  \<^verbatim>\<open>make_recvmsg(fd, msg, flags)\<close> \<^verbatim>\<open>address()\<close> returns \<open>msg\<close>.
\<close>

theorem pointer_accessors_same_slot:
  "address r = iov r \<and> iov r = msghdr r \<and> msghdr r = posix_sockaddr r \<and>
   address (make_recvmsg f msg fl) = Some msg"
  by (simp add: address_def iov_def msghdr_def posix_sockaddr_def make_recvmsg_def ctor_defs)

text \<open>
  C10. \<^verbatim>\<open>size()\<close> and \<^verbatim>\<open>iov_len()\<close> return the same value on every request: both
  read the member \<^verbatim>\<open>_size.len\<close>.
\<close>

theorem size_iov_len_same:
  "size_req r = iov_len r"
  by (simp add: size_req_def iov_len_def)

end
